theory Spec2Isabelle
  imports Complex_Main "HOL-Library.Multiset"
begin

section \<open>Data model (types/index.ts)\<close>

text \<open>
  Timestamps. The source stores every date as an ISO string and reads it back with
  \<^verbatim>\<open>new Date(s).getTime()\<close>; the model keeps the number of milliseconds since the
  epoch that this read yields. An optional field (\<^verbatim>\<open>dueDate?\<close>) is an option; the
  source tests such a field for truthiness, which for a stored ISO string is presence.
\<close>

type_synonym millis = int

subsection \<open>JavaScript numbers\<close>

text \<open>
  An amount is a JavaScript \<^verbatim>\<open>number\<close>, an IEEE 754 binary64 value: a finite value
  (kept as the rational it denotes), an infinity or NaN. The two zeros are not told
  apart; no operation used here distinguishes them. Every arithmetic result is rounded
  to the nearest binary64 value, ties to the even significand, so addition is neither
  exact nor associative.
\<close>

datatype number = Num rat | PosInfinity | NegInfinity | NaN

text \<open>The number of binary digits of a positive integer.\<close>

function bitLength :: "int \<Rightarrow> int" where
  "bitLength n = (if n \<le> 0 then 0 else 1 + bitLength (n div 2))"
  by pat_completeness auto
termination
  by (relation "measure nat") auto

declare bitLength.simps [simp del]

text \<open>Two to a non-negative power, by repeated squaring.\<close>

function twoToThe :: "int \<Rightarrow> rat" where
  "twoToThe n =
     (if n \<le> 0 then 1
      else let h = twoToThe (n div 2) in if even n then h * h else 2 * h * h)"
  by pat_completeness auto
termination
  by (relation "measure nat") auto

declare twoToThe.simps [simp del]

definition pow2 :: "int \<Rightarrow> rat" where
  "pow2 e = (if 0 \<le> e then twoToThe e else 1 / twoToThe (- e))"

text \<open>
  For a positive rational \<open>a\<close>, the exponent \<open>e\<close> with \<open>2^e \<le> a < 2^(e+1)\<close>: the
  difference of the bit lengths of numerator and denominator, or one less.
\<close>

definition floorLog2 :: "rat \<Rightarrow> int" where
  "floorLog2 a =
     (case quotient_of a of
        (p, q) \<Rightarrow>
          (let d = bitLength p - bitLength q
           in if pow2 d \<le> a then d else d - 1))"

definition roundHalfEven :: "rat \<Rightarrow> int" where
  "roundHalfEven x =
     (let f = \<lfloor>x\<rfloor>; r = x - of_int f
      in if r < 1 / 2 then f
         else if 1 / 2 < r then f + 1
         else if even f then f else f + 1)"

text \<open>
  Rounding to binary64: 53 significant bits, exponents from \<open>-1022\<close> (below which the
  spacing stays \<open>2^-1074\<close>) to \<open>1023\<close>, overflow to an infinity.
\<close>

definition roundToDouble :: "rat \<Rightarrow> number" where
  "roundToDouble x =
     (if x = 0 then Num 0
      else
        let a = \<bar>x\<bar>;
            e = max (floorLog2 a) (- 1022);
            ulp = pow2 (e - 52);
            r = of_int (roundHalfEven (a / ulp)) * ulp
        in if pow2 1024 \<le> r then (if 0 < x then PosInfinity else NegInfinity)
           else Num (if 0 < x then r else - r))"

text \<open>The operators \<^verbatim>\<open>+\<close> and \<^verbatim>\<open>-\<close> on numbers.\<close>

fun plusNumber :: "number \<Rightarrow> number \<Rightarrow> number" where
  "plusNumber (Num a) (Num b) = roundToDouble (a + b)"
| "plusNumber NaN y = NaN"
| "plusNumber x NaN = NaN"
| "plusNumber PosInfinity NegInfinity = NaN"
| "plusNumber NegInfinity PosInfinity = NaN"
| "plusNumber PosInfinity y = PosInfinity"
| "plusNumber x PosInfinity = PosInfinity"
| "plusNumber NegInfinity y = NegInfinity"
| "plusNumber x NegInfinity = NegInfinity"

fun negateNumber :: "number \<Rightarrow> number" where
  "negateNumber (Num a) = Num (- a)"
| "negateNumber PosInfinity = NegInfinity"
| "negateNumber NegInfinity = PosInfinity"
| "negateNumber NaN = NaN"

definition minusNumber :: "number \<Rightarrow> number \<Rightarrow> number" where
  "minusNumber x y = plusNumber x (negateNumber y)"

subsection \<open>Records\<close>

datatype TransactionType = Lent | Borrowed

record IOU =
  iou_id :: string
  iou_type :: TransactionType
  amount :: number
  personName :: string
  iou_note :: "string option"
  date :: millis
  dueDate :: "millis option"
  isSettled :: bool
  settledDate :: "millis option"
  createdAt :: millis
  updatedAt :: millis
  phoneNumber :: "string option"
  categoryId :: "string option"
  lastReminder :: "millis option"
  remindersSent :: nat

text \<open>
  \<^verbatim>\<open>Partial<IOU>\<close>: every key may be absent (\<open>None\<close>). For an optional field of
  \<^verbatim>\<open>IOU\<close> a present key may itself carry \<^verbatim>\<open>undefined\<close> (\<open>Some None\<close>).
\<close>

record IOUPartial =
  p_id :: "string option"
  p_type :: "TransactionType option"
  p_amount :: "number option"
  p_personName :: "string option"
  p_note :: "string option option"
  p_date :: "millis option"
  p_dueDate :: "millis option option"
  p_isSettled :: "bool option"
  p_settledDate :: "millis option option"
  p_createdAt :: "millis option"
  p_updatedAt :: "millis option"
  p_phoneNumber :: "string option option"
  p_categoryId :: "string option option"
  p_lastReminder :: "millis option option"
  p_remindersSent :: "nat option"

definition noUpdates :: IOUPartial where
  "noUpdates = \<lparr>p_id = None, p_type = None, p_amount = None, p_personName = None,
     p_note = None, p_date = None, p_dueDate = None, p_isSettled = None,
     p_settledDate = None, p_createdAt = None, p_updatedAt = None, p_phoneNumber = None,
     p_categoryId = None, p_lastReminder = None, p_remindersSent = None\<rparr>"

definition orKeep :: "'a option \<Rightarrow> 'a \<Rightarrow> 'a" where
  "orKeep u old = (case u of None \<Rightarrow> old | Some v \<Rightarrow> v)"

text \<open>The object spread \<^verbatim>\<open>{ ...iou, ...updates }\<close>.\<close>

definition spread :: "IOU \<Rightarrow> IOUPartial \<Rightarrow> IOU" where
  "spread iou u =
     \<lparr>iou_id = orKeep (p_id u) (iou_id iou),
      iou_type = orKeep (p_type u) (iou_type iou),
      amount = orKeep (p_amount u) (amount iou),
      personName = orKeep (p_personName u) (personName iou),
      iou_note = orKeep (p_note u) (iou_note iou),
      date = orKeep (p_date u) (date iou),
      dueDate = orKeep (p_dueDate u) (dueDate iou),
      isSettled = orKeep (p_isSettled u) (isSettled iou),
      settledDate = orKeep (p_settledDate u) (settledDate iou),
      createdAt = orKeep (p_createdAt u) (createdAt iou),
      updatedAt = orKeep (p_updatedAt u) (updatedAt iou),
      phoneNumber = orKeep (p_phoneNumber u) (phoneNumber iou),
      categoryId = orKeep (p_categoryId u) (categoryId iou),
      lastReminder = orKeep (p_lastReminder u) (lastReminder iou),
      remindersSent = orKeep (p_remindersSent u) (remindersSent iou)\<rparr>"

record ReminderSettings =
  enabled :: bool
  dueDateDaysBefore :: int
  periodicReminderDays :: int
  customMessage :: string
  notificationTime :: "int \<times> int"

text \<open>
  \<^verbatim>\<open>notificationTime\<close> is declared a string in \<^verbatim>\<open>HH:mm\<close> format; the scheduler
  reads it only through \<^verbatim>\<open>split(':')\<close> and \<^verbatim>\<open>parseInt\<close>, so the model keeps the
  two integers these yield (hours, minutes).
\<close>

record AppSettings =
  pinEnabled :: bool
  biometricEnabled :: bool
  pin :: "string option"
  currency :: string
  dateFormat :: string
  reminders :: ReminderSettings

record UserSummary =
  totalOwed :: number
  totalOwing :: number
  netBalance :: number

section \<open>Record store (utils/storage.ts)\<close>

text \<open>
  The key-value store as the module sees it: the decoded value under each of its two
  keys (\<open>None\<close> when the key is absent), and whether reading (\<^verbatim>\<open>getItem\<close> or the
  \<^verbatim>\<open>JSON.parse\<close> of what it returns) or writing (\<^verbatim>\<open>setItem\<close>) currently fails.
\<close>

record AsyncStorage =
  iousItem :: "IOU list option"
  settingsItem :: "AppSettings option"
  getItemFails :: bool
  setItemFails :: bool

datatype error = StorageFailure

definition saveIOUs :: "IOU list \<Rightarrow> AsyncStorage \<Rightarrow> error + AsyncStorage" where
  "saveIOUs ious st =
     (if setItemFails st then Inl StorageFailure
      else Inr (st\<lparr>iousItem := Some ious\<rparr>))"

definition loadIOUs :: "AsyncStorage \<Rightarrow> IOU list" where
  "loadIOUs st =
     (if getItemFails st then []
      else case iousItem st of None \<Rightarrow> [] | Some data \<Rightarrow> data)"

text \<open>\<^verbatim>\<open>Array.prototype.findIndex\<close>; \<open>None\<close> stands for the result \<open>-1\<close>.\<close>

fun findIndex :: "('a \<Rightarrow> bool) \<Rightarrow> 'a list \<Rightarrow> nat option" where
  "findIndex p [] = None"
| "findIndex p (x # xs) =
     (if p x then Some 0
      else case findIndex p xs of None \<Rightarrow> None | Some i \<Rightarrow> Some (Suc i))"

text \<open>
  \<^verbatim>\<open>addIOU\<close>: the new id (\<^verbatim>\<open>Date.now().toString()\<close> followed by random characters)
  is chosen by the runtime and passed in as \<open>newId\<close>; \<open>now\<close> is the clock.
\<close>

definition addIOU :: "IOU \<Rightarrow> string \<Rightarrow> millis \<Rightarrow> AsyncStorage \<Rightarrow> error + (IOU \<times> AsyncStorage)" where
  "addIOU iou newId now st =
     (let existingIOUs = loadIOUs st;
          newIOU = iou\<lparr>iou_id := newId, createdAt := now, updatedAt := now\<rparr>;
          updatedIOUs = existingIOUs @ [newIOU]
      in case saveIOUs updatedIOUs st of
           Inl e \<Rightarrow> Inl e
         | Inr st' \<Rightarrow> Inr (newIOU, st'))"

definition updateIOU :: "string \<Rightarrow> IOUPartial \<Rightarrow> millis \<Rightarrow> AsyncStorage \<Rightarrow> error + AsyncStorage" where
  "updateIOU i updates now st =
     (let ious = loadIOUs st
      in case findIndex (\<lambda>iou. iou_id iou = i) ious of
           None \<Rightarrow> Inr st
         | Some index \<Rightarrow>
             saveIOUs (ious[index := (spread (ious ! index) updates)\<lparr>updatedAt := now\<rparr>]) st)"

definition deleteIOU :: "string \<Rightarrow> AsyncStorage \<Rightarrow> error + AsyncStorage" where
  "deleteIOU i st =
     (let ious = loadIOUs st;
          filteredIOUs = filter (\<lambda>iou. iou_id iou \<noteq> i) ious
      in saveIOUs filteredIOUs st)"

text \<open>
  \<^verbatim>\<open>settleIOU\<close> reads the clock once for \<^verbatim>\<open>settledDate\<close> (\<open>tSettled\<close>);
  \<^verbatim>\<open>updateIOU\<close> reads it again for \<^verbatim>\<open>updatedAt\<close> (\<open>tUpdated\<close>).
\<close>

definition settleIOU :: "string \<Rightarrow> millis \<Rightarrow> millis \<Rightarrow> AsyncStorage \<Rightarrow> error + AsyncStorage" where
  "settleIOU i tSettled tUpdated st =
     updateIOU i (noUpdates\<lparr>p_isSettled := Some True, p_settledDate := Some (Some tSettled)\<rparr>)
       tUpdated st"

definition defaultSettings :: "string \<Rightarrow> AppSettings" where
  "defaultSettings defaultCurrency =
     \<lparr>pinEnabled = False, biometricEnabled = False, pin = None,
      currency = defaultCurrency, dateFormat = ''MM/dd/yyyy'',
      reminders = \<lparr>enabled = True, dueDateDaysBefore = 3, periodicReminderDays = 7,
        customMessage = ''Hi {name}, just a friendly reminder about our {type} of {amount}. Thanks!'',
        notificationTime = (9, 0)\<rparr>\<rparr>"

text \<open>
  \<^verbatim>\<open>loadSettings\<close>: the stored object is a complete \<^verbatim>\<open>AppSettings\<close> (it is only
  ever written by \<^verbatim>\<open>saveSettings\<close>), so spreading it over the defaults gives the
  stored object. The locale's default currency is a parameter.
\<close>

definition loadSettings :: "string \<Rightarrow> AsyncStorage \<Rightarrow> AppSettings" where
  "loadSettings defaultCurrency st =
     (if getItemFails st then defaultSettings defaultCurrency
      else case settingsItem st of
             None \<Rightarrow> defaultSettings defaultCurrency
           | Some data \<Rightarrow> data)"

definition calculateSummary :: "IOU list \<Rightarrow> UserSummary" where
  "calculateSummary ious =
     (let activeIOUs = filter (\<lambda>iou. \<not> isSettled iou) ious;
          owed = foldl (\<lambda>sum iou. plusNumber sum (amount iou)) (Num 0)
                   (filter (\<lambda>iou. iou_type iou = Lent) activeIOUs);
          owing = foldl (\<lambda>sum iou. plusNumber sum (amount iou)) (Num 0)
                    (filter (\<lambda>iou. iou_type iou = Borrowed) activeIOUs)
      in \<lparr>totalOwed = owed, totalOwing = owing, netBalance = minusNumber owed owing\<rparr>)"

section \<open>Reminder scheduler (utils/reminders.ts)\<close>

text \<open>
  A pending notification in the platform's registry: the identifier it is filed under,
  the record id carried in \<^verbatim>\<open>content.data.iouId\<close>, the title, and the delay of its
  time-interval trigger in seconds. The body text (built with \<^verbatim>\<open>Intl\<close> formatters)
  plays no part in scheduling and is left out.
\<close>

record notification =
  n_identifier :: string
  data_iouId :: string
  title :: string
  trigger_seconds :: int

text \<open>
  What the reminder module acts on: the key-value store, the registry of pending
  notifications, and the outcome of \<^verbatim>\<open>isNotificationAvailable()\<close>.
\<close>

record Device =
  storage :: AsyncStorage
  scheduled :: "notification list"
  notificationsAvailable :: bool

text \<open>
  The platform calls. \<^verbatim>\<open>cancelScheduledNotificationAsync(identifier)\<close> removes the
  pending notifications filed under that identifier. \<^verbatim>\<open>scheduleNotificationAsync\<close>
  is only ever called with a request of \<^verbatim>\<open>content\<close> and \<^verbatim>\<open>trigger\<close>, without
  an identifier, so the platform files the notification under an identifier of its own
  choice and returns it; that choice is the parameter \<open>uid\<close>.
\<close>

definition cancelScheduledNotificationAsync :: "string \<Rightarrow> notification list \<Rightarrow> notification list" where
  "cancelScheduledNotificationAsync ident reg = filter (\<lambda>n. n_identifier n \<noteq> ident) reg"

definition scheduleNotificationAsync ::
  "string \<Rightarrow> string \<Rightarrow> string \<Rightarrow> int \<Rightarrow> notification list \<Rightarrow> string \<times> notification list" where
  "scheduleNotificationAsync uid ttl iouId secs reg =
     (uid, reg @ [\<lparr>n_identifier = uid, data_iouId = iouId, title = ttl, trigger_seconds = secs\<rparr>])"

text \<open>
  What the runtime supplies to one call of \<^verbatim>\<open>scheduleIOUReminder\<close>: the identifier
  the platform will choose, and the three clock reads of the call, in program order
  (\<^verbatim>\<open>new Date()\<close> in the comparison, \<^verbatim>\<open>Date.now()\<close> in the clamp,
  \<^verbatim>\<open>Date.now()\<close> in the trigger).
\<close>

record runtime =
  uid :: string
  tCompare :: millis
  tClamp :: millis
  tTrigger :: millis

text \<open>
  \<^verbatim>\<open>Date.prototype.setHours(h, m, 0, 0)\<close> works in the device's local time zone and
  is a parameter \<open>setHours\<close> of the functions below. \<open>setHoursAt offset\<close> is that
  function for a zone at a fixed offset (in milliseconds) from UTC.
\<close>

definition setHoursAt :: "int \<Rightarrow> millis \<Rightarrow> int \<Rightarrow> int \<Rightarrow> millis" where
  "setHoursAt offset t h m =
     (let local = t + offset;
          midnight = local - local mod 86400000
      in midnight + h * 3600000 + m * 60000 - offset)"

definition cancelIOUReminder :: "string \<Rightarrow> Device \<Rightarrow> Device" where
  "cancelIOUReminder iouId d =
     (if \<not> notificationsAvailable d then d
      else let notificationId = ''iou-reminder-'' @ iouId
           in d\<lparr>scheduled := cancelScheduledNotificationAsync notificationId (scheduled d)\<rparr>)"

text \<open>Lines 98 to 117 of \<^verbatim>\<open>scheduleIOUReminder\<close>: the date before the time of day is set.\<close>

definition dateBeforeSetHours :: "IOU \<Rightarrow> ReminderSettings \<Rightarrow> millis \<Rightarrow> millis \<Rightarrow> millis" where
  "dateBeforeSetHours iou rs tNow tNow' =
     (case dueDate iou of
        Some due \<Rightarrow>
          (let r = due - dueDateDaysBefore rs * 24 * 60 * 60 * 1000
           in if r \<le> tNow then tNow' + 5 * 60 * 1000 else r)
      | None \<Rightarrow>
          (let lastR = (case lastReminder iou of Some l \<Rightarrow> l | None \<Rightarrow> date iou)
           in lastR + periodicReminderDays rs * 24 * 60 * 60 * 1000))"

text \<open>Lines 119 to 121: the time of day is overwritten.\<close>

definition reminderDate ::
  "(millis \<Rightarrow> int \<Rightarrow> int \<Rightarrow> millis) \<Rightarrow> IOU \<Rightarrow> ReminderSettings \<Rightarrow> millis \<Rightarrow> millis \<Rightarrow> millis" where
  "reminderDate setHours iou rs tNow tNow' =
     (case notificationTime rs of
        (hours, minutes) \<Rightarrow> setHours (dateBeforeSetHours iou rs tNow tNow') hours minutes)"

definition reminderTitle :: "IOU \<Rightarrow> string" where
  "reminderTitle iou =
     (case dueDate iou of
        Some due \<Rightarrow>
          (if iou_type iou = Lent then personName iou @ '' owes you money''
           else ''You owe money to '' @ personName iou)
      | None \<Rightarrow>
          (if iou_type iou = Lent then ''Reminder: '' @ personName iou @ '' owes you''
           else ''Reminder: You owe '' @ personName iou))"

definition scheduleIOUReminder ::
  "(millis \<Rightarrow> int \<Rightarrow> int \<Rightarrow> millis) \<Rightarrow> IOU \<Rightarrow> AppSettings \<Rightarrow> runtime \<Rightarrow> Device
     \<Rightarrow> string option \<times> Device" where
  "scheduleIOUReminder setHours iou settings rt d =
     (if \<not> enabled (reminders settings) then (None, d)
      else
        let d1 = cancelIOUReminder (iou_id iou) d;
            r = reminderDate setHours iou (reminders settings) (tCompare rt) (tClamp rt)
        in if \<not> notificationsAvailable d1 then (None, d1)
           else
             (case scheduleNotificationAsync (uid rt) (reminderTitle iou) (iou_id iou)
                     (max 1 ((r - tTrigger rt) div 1000)) (scheduled d1) of
                (ident, reg) \<Rightarrow> (Some ident, d1\<lparr>scheduled := reg\<rparr>)))"

text \<open>
  The instant a time-interval trigger fires: the delay counts from the moment of
  scheduling.
\<close>

definition fireTime :: "runtime \<Rightarrow> notification \<Rightarrow> millis" where
  "fireTime rt n = tTrigger rt + 1000 * trigger_seconds n"

text \<open>
  \<^verbatim>\<open>scheduleAllReminders\<close>: the loop over the unsettled records; \<open>rts k\<close> is what the
  runtime supplies to the \<open>k\<close>-th call.
\<close>

fun scheduleEach ::
  "(millis \<Rightarrow> int \<Rightarrow> int \<Rightarrow> millis) \<Rightarrow> AppSettings \<Rightarrow> (nat \<Rightarrow> runtime) \<Rightarrow> nat \<Rightarrow> IOU list
     \<Rightarrow> Device \<Rightarrow> Device" where
  "scheduleEach setHours settings rts k [] d = d"
| "scheduleEach setHours settings rts k (iou # rest) d =
     scheduleEach setHours settings rts (Suc k) rest
       (snd (scheduleIOUReminder setHours iou settings (rts k) d))"

definition scheduleAllReminders ::
  "(millis \<Rightarrow> int \<Rightarrow> int \<Rightarrow> millis) \<Rightarrow> string \<Rightarrow> (nat \<Rightarrow> runtime) \<Rightarrow> Device \<Rightarrow> Device" where
  "scheduleAllReminders setHours defaultCurrency rts d =
     (let ious = loadIOUs (storage d);
          settings = loadSettings defaultCurrency (storage d)
      in if \<not> enabled (reminders settings) then d
         else
           let activeIOUs = filter (\<lambda>iou. \<not> isSettled iou) ious
           in scheduleEach setHours settings rts 0 activeIOUs d)"

definition cancelAllReminders :: "Device \<Rightarrow> Device" where
  "cancelAllReminders d =
     (if \<not> notificationsAvailable d then d else d\<lparr>scheduled := []\<rparr>)"

text \<open>The loop of \<^verbatim>\<open>getUpcomingReminders\<close> (lines 280 to 294).\<close>

definition upcomingDate :: "IOU \<Rightarrow> ReminderSettings \<Rightarrow> millis" where
  "upcomingDate iou rs =
     (case dueDate iou of
        Some due \<Rightarrow> due - dueDateDaysBefore rs * 24 * 60 * 60 * 1000
      | None \<Rightarrow>
          (let lastR = (case lastReminder iou of Some l \<Rightarrow> l | None \<Rightarrow> date iou)
           in lastR + periodicReminderDays rs * 24 * 60 * 60 * 1000))"

fun upcomingLoop :: "ReminderSettings \<Rightarrow> millis \<Rightarrow> millis \<Rightarrow> IOU list \<Rightarrow> (IOU \<times> millis) list" where
  "upcomingLoop rs now next7Days [] = []"
| "upcomingLoop rs now next7Days (iou # rest) =
     (let r = upcomingDate iou rs
      in if r \<ge> now \<and> r \<le> next7Days
         then (iou, r) # upcomingLoop rs now next7Days rest
         else upcomingLoop rs now next7Days rest)"

text \<open>
  \<^verbatim>\<open>getUpcomingReminders\<close>. \<^verbatim>\<open>Array.prototype.sort\<close> with the comparator
  \<^verbatim>\<open>a.reminderDate.getTime() - b.reminderDate.getTime()\<close> is a stable sort by the date.
  The function only reads; the device is returned to make that visible.
\<close>

definition getUpcomingReminders :: "string \<Rightarrow> millis \<Rightarrow> Device \<Rightarrow> (IOU \<times> millis) list \<times> Device" where
  "getUpcomingReminders defaultCurrency now d =
     (let ious = loadIOUs (storage d);
          settings = loadSettings defaultCurrency (storage d)
      in if \<not> enabled (reminders settings) then ([], d)
         else
           let next7Days = now + 7 * 24 * 60 * 60 * 1000;
               upcomingReminders =
                 upcomingLoop (reminders settings) now next7Days
                   (filter (\<lambda>i. \<not> isSettled i) ious)
           in (sort_key snd upcomingReminders, d))"

section \<open>Dashboard (app/(tabs)/index.tsx)\<close>

text \<open>
  The \<^verbatim>\<open>onPress\<close> handler of the Settle button in \<^verbatim>\<open>handleSettleIOU\<close>:
  \<^verbatim>\<open>settleIOU(iou.id)\<close>, then \<^verbatim>\<open>loadData()\<close> (which only reads), with any error
  turned into an alert.
\<close>

definition handleSettleIOU :: "IOU \<Rightarrow> millis \<Rightarrow> millis \<Rightarrow> Device \<Rightarrow> Device" where
  "handleSettleIOU iou tSettled tUpdated d =
     (case settleIOU (iou_id iou) tSettled tUpdated (storage d) of
        Inl e \<Rightarrow> d
      | Inr st \<Rightarrow> d\<lparr>storage := st\<rparr>)"

section \<open>Add form (app/add-iou.tsx)\<close>

text \<open>
  The object that \<^verbatim>\<open>handleSave\<close> passes to \<^verbatim>\<open>addIOU\<close>: a new,
  unsettled record with no reminder sent. Its \<^verbatim>\<open>id\<close>, \<^verbatim>\<open>createdAt\<close> and
  \<^verbatim>\<open>updatedAt\<close> are not part of it; \<^verbatim>\<open>addIOU\<close> sets them.
\<close>

definition transaction ::
  "TransactionType \<Rightarrow> number \<Rightarrow> string \<Rightarrow> string option \<Rightarrow> millis \<Rightarrow> millis option \<Rightarrow> IOU" where
  "transaction ty amt person nt dt due =
     \<lparr>iou_id = [], iou_type = ty, amount = amt, personName = person, iou_note = nt,
      date = dt, dueDate = due, isSettled = False, settledDate = None,
      createdAt = 0, updatedAt = 0, phoneNumber = None, categoryId = None,
      lastReminder = None, remindersSent = 0\<rparr>"

section \<open>Feature flags (utils/pro.ts)\<close>

datatype ProFeature = CONTACTS_INTEGRATION | CUSTOM_CATEGORIES | EXPORT

definition isProVersion :: bool where
  "isProVersion = False"

definition hasProFeature :: "ProFeature \<Rightarrow> bool" where
  "hasProFeature feature =
     (let enabledFeatures = [CONTACTS_INTEGRATION, CUSTOM_CATEGORIES, EXPORT]
      in feature \<in> set enabledFeatures)"

section \<open>Category manager (utils/categories.ts)\<close>

record Category =
  cat_id :: string
  cat_name :: string
  color :: string
  icon :: string
  cat_createdAt :: millis
  isDefault :: bool

text \<open>\<^verbatim>\<open>Partial<Pick<Category, 'name' | 'color' | 'icon'>>\<close>.\<close>

record CategoryUpdates =
  u_name :: "string option"
  u_color :: "string option"
  u_icon :: "string option"

text \<open>
  The manager: its two private fields, and the key-value store entry it persists to
  (\<open>None\<close> when the key is absent) with the store's current failure modes.
\<close>

record CategoryManager =
  categories :: "Category list"
  initialized :: bool
  storedCategories :: "Category list option"
  catGetItemFails :: bool
  catSetItemFails :: bool

text \<open>
  The errors thrown by the category operations: \<open>DuplicateName\<close> is
  \<^verbatim>\<open>Error('Category name already exists')\<close>, \<open>NotFound\<close> is
  \<^verbatim>\<open>Error('Category not found')\<close>, \<open>ProtectedDefault\<close> is
  \<^verbatim>\<open>Error('Cannot delete default category')\<close>, \<open>SaveFailed\<close> is the error
  rethrown by \<^verbatim>\<open>saveCategories\<close>.
\<close>

datatype categoryError = DuplicateName | NotFound | ProtectedDefault | SaveFailed

text \<open>
  Strings are byte strings here, so \<^verbatim>\<open>toLowerCase\<close> and \<^verbatim>\<open>trim\<close> are
  modelled on ASCII: the letters A to Z, and the white space characters tab, line feed,
  vertical tab, form feed, carriage return and space.
\<close>

definition toLowerChar :: "char \<Rightarrow> char" where
  "toLowerChar c =
     (let n = (of_char c :: nat)
      in if 65 \<le> n \<and> n \<le> 90 then char_of (n + 32) else c)"

definition toLowerCase :: "string \<Rightarrow> string" where
  "toLowerCase s = map toLowerChar s"

definition isWhiteSpace :: "char \<Rightarrow> bool" where
  "isWhiteSpace c =
     (let n = (of_char c :: nat)
      in (9 \<le> n \<and> n \<le> 13) \<or> n = 32)"

definition trim :: "string \<Rightarrow> string" where
  "trim s = rev (dropWhile isWhiteSpace (rev (dropWhile isWhiteSpace s)))"

text \<open>\<^verbatim>\<open>DEFAULT_CATEGORIES\<close>; \<open>t0\<close> is the time the module was loaded.\<close>

definition DEFAULT_CATEGORIES :: "millis \<Rightarrow> Category list" where
  "DEFAULT_CATEGORIES t0 =
     [\<lparr>cat_id = ''general'', cat_name = ''General'', color = ''#007AFF'',
       icon = ''banknote'', cat_createdAt = t0, isDefault = True\<rparr>,
      \<lparr>cat_id = ''personal'', cat_name = ''Personal'', color = ''#34C759'',
       icon = ''person'', cat_createdAt = t0, isDefault = True\<rparr>,
      \<lparr>cat_id = ''business'', cat_name = ''Business'', color = ''#FF9500'',
       icon = ''building'', cat_createdAt = t0, isDefault = True\<rparr>,
      \<lparr>cat_id = ''family'', cat_name = ''Family'', color = ''#FF2D92'',
       icon = ''house'', cat_createdAt = t0, isDefault = True\<rparr>]"

definition saveCategories :: "CategoryManager \<Rightarrow> categoryError + CategoryManager" where
  "saveCategories m =
     (if catSetItemFails m then Inl SaveFailed
      else Inr (m\<lparr>storedCategories := Some (categories m)\<rparr>))"

definition initializeCategories :: "millis \<Rightarrow> CategoryManager \<Rightarrow> CategoryManager" where
  "initializeCategories t0 m =
     (if initialized m then m
      else if catGetItemFails m
        then m\<lparr>categories := DEFAULT_CATEGORIES t0, initialized := True\<rparr>
      else case storedCategories m of
             Some stored \<Rightarrow> m\<lparr>categories := stored, initialized := True\<rparr>
           | None \<Rightarrow>
               (case saveCategories (m\<lparr>categories := DEFAULT_CATEGORIES t0\<rparr>) of
                  Inr m' \<Rightarrow> m'\<lparr>initialized := True\<rparr>
                | Inl e \<Rightarrow> m\<lparr>categories := DEFAULT_CATEGORIES t0, initialized := True\<rparr>))"

text \<open>
  \<^verbatim>\<open>createCategory\<close>. \<open>newId\<close> is the generated id
  (\<^verbatim>\<open>category_<time>_<random>\<close>), \<open>now\<close> the clock. The result pairs the manager
  after the call with what the call returns or throws; \<open>Inr None\<close> is the
  \<^verbatim>\<open>null\<close> returned when the feature is off.
\<close>

definition createCategory ::
  "millis \<Rightarrow> string \<Rightarrow> string \<Rightarrow> string \<Rightarrow> string \<Rightarrow> millis \<Rightarrow> CategoryManager
     \<Rightarrow> CategoryManager \<times> (categoryError + Category option)" where
  "createCategory t0 name col icn newId now m =
     (if \<not> hasProFeature CUSTOM_CATEGORIES then (m, Inr None)
      else
        let m1 = initializeCategories t0 m
        in if list_ex (\<lambda>cat. toLowerCase (cat_name cat) = toLowerCase name) (categories m1)
           then (m1, Inl DuplicateName)
           else
             let newCategory =
                   \<lparr>cat_id = newId, cat_name = trim name, color = col, icon = icn,
                    cat_createdAt = now, isDefault = False\<rparr>;
                 m2 = m1\<lparr>categories := categories m1 @ [newCategory]\<rparr>
             in case saveCategories m2 of
                  Inl e \<Rightarrow> (m2, Inl e)
                | Inr m3 \<Rightarrow> (m3, Inr (Some newCategory)))"

definition updateCategory ::
  "millis \<Rightarrow> string \<Rightarrow> CategoryUpdates \<Rightarrow> CategoryManager
     \<Rightarrow> CategoryManager \<times> (categoryError + Category option)" where
  "updateCategory t0 i updates m =
     (if \<not> hasProFeature CUSTOM_CATEGORIES then (m, Inr None)
      else
        let m1 = initializeCategories t0 m
        in case findIndex (\<lambda>cat. cat_id cat = i) (categories m1) of
             None \<Rightarrow> (m1, Inl NotFound)
           | Some categoryIndex \<Rightarrow>
               let category = categories m1 ! categoryIndex;
                   conflict =
                     (case u_name updates of
                        None \<Rightarrow> False
                      | Some n \<Rightarrow>
                          n \<noteq> [] \<and> n \<noteq> cat_name category \<and>
                          list_ex (\<lambda>cat. toLowerCase (cat_name cat) = toLowerCase n
                                          \<and> cat_id cat \<noteq> i) (categories m1))
               in if conflict then (m1, Inl DuplicateName)
                  else
                    let updated =
                          \<lparr>cat_id = cat_id category,
                           cat_name =
                             (case u_name updates of
                                None \<Rightarrow> cat_name category
                              | Some n \<Rightarrow> if trim n \<noteq> [] then trim n else cat_name category),
                           color = orKeep (u_color updates) (color category),
                           icon = orKeep (u_icon updates) (icon category),
                           cat_createdAt = cat_createdAt category,
                           isDefault = isDefault category\<rparr>;
                        m2 = m1\<lparr>categories := (categories m1)[categoryIndex := updated]\<rparr>
                    in (case saveCategories m2 of
                          Inl e \<Rightarrow> (m2, Inl e)
                        | Inr m3 \<Rightarrow> (m3, Inr (Some updated))))"

definition deleteCategory ::
  "millis \<Rightarrow> string \<Rightarrow> CategoryManager \<Rightarrow> CategoryManager \<times> (categoryError + bool)" where
  "deleteCategory t0 i m =
     (if \<not> hasProFeature CUSTOM_CATEGORIES then (m, Inr False)
      else
        let m1 = initializeCategories t0 m
        in case find (\<lambda>cat. cat_id cat = i) (categories m1) of
             None \<Rightarrow> (m1, Inl NotFound)
           | Some category \<Rightarrow>
               if isDefault category then (m1, Inl ProtectedDefault)
               else
                 let m2 = m1\<lparr>categories := filter (\<lambda>cat. cat_id cat \<noteq> i) (categories m1)\<rparr>
                 in (case saveCategories m2 of
                       Inl e \<Rightarrow> (m2, Inl e)
                     | Inr m3 \<Rightarrow> (m3, Inr True)))"

text \<open>The manager of a fresh installation: nothing loaded, nothing stored.\<close>

definition freshManager :: CategoryManager where
  "freshManager =
     \<lparr>categories = [], initialized = False, storedCategories = None,
      catGetItemFails = False, catSetItemFails = False\<rparr>"

text \<open>Names are unique case-insensitively: no two list entries have the same lower-cased name.\<close>

definition namesUnique :: "Category list \<Rightarrow> bool" where
  "namesUnique cats = distinct (map (\<lambda>cat. toLowerCase (cat_name cat)) cats)"

section \<open>Export renderer (utils/export/ExportManager.ts)\<close>

text \<open>\<^verbatim>\<open>Array.prototype.join\<close> on an array of strings.\<close>

fun joinArray :: "string \<Rightarrow> string list \<Rightarrow> string" where
  "joinArray sep [] = []"
| "joinArray sep [x] = x"
| "joinArray sep (x # y # ys) = x @ sep @ joinArray sep (y # ys)"

definition typeString :: "TransactionType \<Rightarrow> string" where
  "typeString t = (case t of Lent \<Rightarrow> ''lent'' | Borrowed \<Rightarrow> ''borrowed'')"

definition dquote :: char where
  "dquote = CHR 0x22"

definition newline :: char where
  "newline = CHR 0x0A"

text \<open>
  One element of \<^verbatim>\<open>dataRows\<close>. \<^verbatim>\<open>Number.prototype.toFixed\<close> and the
  \<^verbatim>\<open>format\<close> function of date-fns are library code and are the parameters
  \<open>toFixed\<close> and \<open>format\<close>.
\<close>

definition csvRow ::
  "(number \<Rightarrow> nat \<Rightarrow> string) \<Rightarrow> (millis \<Rightarrow> string \<Rightarrow> string) \<Rightarrow> IOU \<Rightarrow> string" where
  "csvRow toFixed format iou =
     (let row =
        [[dquote] @ personName iou @ [dquote],
         toFixed (amount iou) 2,
         typeString (iou_type iou),
         format (date iou) ''yyyy-MM-dd'',
         (case dueDate iou of Some due \<Rightarrow> format due ''yyyy-MM-dd'' | None \<Rightarrow> []),
         (if isSettled iou then ''Settled'' else ''Active''),
         [dquote] @ (case iou_note iou of Some n \<Rightarrow> n | None \<Rightarrow> []) @ [dquote],
         format (createdAt iou) ''yyyy-MM-dd HH:mm:ss'',
         (case settledDate iou of Some sd \<Rightarrow> format sd ''yyyy-MM-dd'' | None \<Rightarrow> [])]
      in joinArray '','' row)"

definition headerRow :: string where
  "headerRow =
     (let headers = [''Person Name'', ''Amount'', ''Type'', ''Date'', ''Due Date'',
                     ''Status'', ''Notes'', ''Created'', ''Settled Date'']
      in joinArray '','' headers)"

definition generateCSVContent ::
  "(number \<Rightarrow> nat \<Rightarrow> string) \<Rightarrow> (millis \<Rightarrow> string \<Rightarrow> string) \<Rightarrow> IOU list \<Rightarrow> string" where
  "generateCSVContent toFixed format ious =
     (let dataRows = map (csvRow toFixed format) ious
      in joinArray [newline] (headerRow # dataRows))"

text \<open>
  The rows of a text are its lines: what \<^verbatim>\<open>split('\n')\<close> returns. This is the
  reading of "row" the row-count property is stated with.
\<close>

fun splitOn :: "char \<Rightarrow> string \<Rightarrow> string list" where
  "splitOn c [] = [[]]"
| "splitOn c (x # xs) =
     (if x = c then [] # splitOn c xs
      else case splitOn c xs of
             r # rs \<Rightarrow> (x # r) # rs
           | [] \<Rightarrow> [[x]])"

definition csvRows :: "string \<Rightarrow> string list" where
  "csvRows text = splitOn newline text"

section \<open>Ad frequency limits (utils/ads.ts)\<close>

definition INTERSTITIAL_MIN_INTERVAL :: int where
  "INTERSTITIAL_MIN_INTERVAL = 5 * 60 * 1000"

definition MAX_INTERSTITIALS_PER_SESSION :: nat where
  "MAX_INTERSTITIALS_PER_SESSION = 3"

definition MAX_INTERSTITIALS_PER_DAY :: nat where
  "MAX_INTERSTITIALS_PER_DAY = 8"

record AdFrequencyData =
  lastInterstitial :: millis
  interstitialsToday :: nat
  interstitialsSession :: nat
  lastDate :: string

text \<open>
  The service object: \<open>interstitialAd\<close> is \<open>None\<close> for \<^verbatim>\<open>null\<close> and otherwise
  holds the ad object's \<^verbatim>\<open>loaded\<close> flag; \<open>storedFrequencyData\<close> is the store entry
  \<^verbatim>\<open>adFrequencyData\<close>. Failed store accesses, which the service swallows, are not
  modelled.
\<close>

record AdService =
  isInitialized :: bool
  interstitialAd :: "bool option"
  adFrequencyData :: AdFrequencyData
  storedFrequencyData :: "AdFrequencyData option"


definition saveAdFrequencyData :: "AdService \<Rightarrow> AdService" where
  "saveAdFrequencyData s = s\<lparr>storedFrequencyData := Some (adFrequencyData s)\<rparr>"




text \<open>\<open>now\<close> is \<^verbatim>\<open>Date.now()\<close>, \<open>today\<close> is \<^verbatim>\<open>new Date().toDateString()\<close>.\<close>

definition canShowInterstitialAd :: "millis \<Rightarrow> string \<Rightarrow> AdService \<Rightarrow> bool \<times> AdService" where
  "canShowInterstitialAd now today s =
     (let s1 = (if lastDate (adFrequencyData s) \<noteq> today
                then saveAdFrequencyData
                       (s\<lparr>adFrequencyData :=
                            (adFrequencyData s)\<lparr>interstitialsToday := 0, lastDate := today\<rparr>\<rparr>)
                else s)
      in if now - lastInterstitial (adFrequencyData s1) < INTERSTITIAL_MIN_INTERVAL
           then (False, s1)
         else if interstitialsToday (adFrequencyData s1) \<ge> MAX_INTERSTITIALS_PER_DAY
           then (False, s1)
         else if interstitialsSession (adFrequencyData s1) \<ge> MAX_INTERSTITIALS_PER_SESSION
           then (False, s1)
         else (True, s1))"



text \<open>
  \<^verbatim>\<open>showInterstitialAd\<close>: the result says whether an ad was shown. \<open>showSucceeds\<close>
  says that the ad object's \<^verbatim>\<open>show()\<close> does not throw.
\<close>

definition showInterstitialAd ::
  "bool \<Rightarrow> bool \<Rightarrow> millis \<Rightarrow> string \<Rightarrow> AdService \<Rightarrow> bool \<times> AdService" where
  "showInterstitialAd isAdFree showSucceeds now today s =
     (if \<not> isInitialized s \<or> isProVersion \<or> isAdFree \<or> interstitialAd s = None
        then (False, s)
      else case canShowInterstitialAd now today s of
             (ok, s1) \<Rightarrow>
               if \<not> ok then (False, s1)
               else if interstitialAd s1 = Some True then (showSucceeds, s1)
               else (False, s1))"




section \<open>Example states\<close>

text \<open>
  A device after a fresh installation: nothing stored, nothing scheduled, notifications
  available.
\<close>

definition freshDevice :: Device where
  "freshDevice =
     \<lparr>storage = \<lparr>iousItem = None, settingsItem = None,
                  getItemFails = False, setItemFails = False\<rparr>,
      scheduled = [], notificationsAvailable = True\<rparr>"

text \<open>
  A loan of 50 to Ann dated 2023-11-03, due 2023-11-20T17:06:40Z, as \<open>addIOU\<close>
  stores it under id 1 at the instant 1699000000000, and a store that holds just this
  record.
\<close>

definition annLoan :: IOU where
  "annLoan =
     (transaction Lent (Num 50) ''Ann'' None 1699000000000 (Some 1700500000000))
       \<lparr>iou_id := ''1'', createdAt := 1699000000000, updatedAt := 1699000000000\<rparr>"

definition annStore :: AsyncStorage where
  "annStore =
     \<lparr>iousItem = Some [annLoan], settingsItem = None,
      getItemFails = False, setItemFails = False\<rparr>"

text \<open>
  What the runtime supplies to a scheduling call made at the instant \<open>t\<close>, when the
  platform files the notification under \<open>u\<close>.
\<close>

definition atInstant :: "string \<Rightarrow> millis \<Rightarrow> runtime" where
  "atInstant u t = \<lparr>uid = u, tCompare = t, tClamp = t, tTrigger = t\<rparr>"

section \<open>Properties of the summary calculator\<close>

lemma foldl_amount:
  "foldl (\<lambda>sum iou. plusNumber sum (amount iou)) a xs = foldl plusNumber a (map amount xs)"
  by (induction xs arbitrary: a) simp_all

lemma roundToDouble_50: "roundToDouble 50 = Num 50"
  by code_simp

lemma roundToDouble_20: "roundToDouble 20 = Num 20"
  by code_simp

lemma minusNumber_50_20: "minusNumber (Num 50) (Num 20) = Num 30"
  by code_simp

lemma minusNumber_zero_zero: "minusNumber (Num 0) (Num 0) = Num 0"
  by code_simp

text \<open>
  The sums are JavaScript sums: for three unsettled loans of 0.1, 0.2 and 0.3 (the
  binary64 values nearest to these) the total depends on the order of the records.
\<close>

lemma calculateSummary_order_matters:
  "totalOwed (calculateSummary
      (map (\<lambda>x. r\<lparr>iou_type := Lent, amount := x, isSettled := False\<rparr>)
         [roundToDouble (1 / 10), roundToDouble (2 / 10), roundToDouble (3 / 10)]))
   \<noteq> totalOwed (calculateSummary
      (map (\<lambda>x. r\<lparr>iou_type := Lent, amount := x, isSettled := False\<rparr>)
         [roundToDouble (3 / 10), roundToDouble (2 / 10), roundToDouble (1 / 10)]))"
proof -
  have "plusNumber (plusNumber (plusNumber (Num 0) (roundToDouble (1 / 10)))
            (roundToDouble (2 / 10))) (roundToDouble (3 / 10))
        \<noteq> plusNumber (plusNumber (plusNumber (Num 0) (roundToDouble (3 / 10)))
            (roundToDouble (2 / 10))) (roundToDouble (1 / 10))"
    by code_simp
  then show ?thesis
    by (simp add: calculateSummary_def Let_def)
qed

text \<open>
  C2. For every record list, \<open>totalOwed\<close> is the sum of the amounts of the unsettled
  lent records and \<open>totalOwing\<close> the sum of the amounts of the unsettled borrowed
  records, each added up from 0 in list order with JavaScript's addition, and
  \<open>netBalance\<close> is \<open>totalOwed - totalOwing\<close>; the empty list gives the all-zero
  summary; the three-record example (lent 50 active, borrowed 20 active, lent 100
  settled) gives 50, 20 and 30.
\<close>

theorem calculateSummary_correct:
  "totalOwed (calculateSummary L) =
     foldl plusNumber (Num 0)
       (map amount (filter (\<lambda>iou. iou_type iou = Lent \<and> \<not> isSettled iou) L))
   \<and> totalOwing (calculateSummary L) =
     foldl plusNumber (Num 0)
       (map amount (filter (\<lambda>iou. iou_type iou = Borrowed \<and> \<not> isSettled iou) L))
   \<and> netBalance (calculateSummary L) =
     minusNumber (totalOwed (calculateSummary L)) (totalOwing (calculateSummary L))
   \<and> calculateSummary [] = \<lparr>totalOwed = Num 0, totalOwing = Num 0, netBalance = Num 0\<rparr>
   \<and> calculateSummary
       [a\<lparr>iou_type := Lent, amount := Num 50, isSettled := False\<rparr>,
        b\<lparr>iou_type := Borrowed, amount := Num 20, isSettled := False\<rparr>,
        c\<lparr>iou_type := Lent, amount := Num 100, isSettled := True\<rparr>]
     = \<lparr>totalOwed = Num 50, totalOwing = Num 20, netBalance = Num 30\<rparr>"
  by (simp add: calculateSummary_def Let_def foldl_amount conj_commute
      roundToDouble_50 roundToDouble_20 minusNumber_50_20 minusNumber_zero_zero)

section \<open>Properties of the record store\<close>

lemma findIndex_None: "findIndex p xs = None \<longleftrightarrow> (\<forall>x \<in> set xs. \<not> p x)"
  by (induction xs) (auto split: option.splits)

text \<open>
  C10. For every stored record list and every id that no record of it carries,
  \<open>updateIOU\<close>, and \<open>settleIOU\<close> which is defined through it, return without an
  error and leave the store as it was.
\<close>

theorem updateIOU_missing_id_noop:
  assumes "i \<notin> iou_id ` set (loadIOUs st)"
  shows "updateIOU i updates now st = Inr st \<and> settleIOU i tSettled tUpdated st = Inr st"
proof -
  from assms have "findIndex (\<lambda>iou. iou_id iou = i) (loadIOUs st) = None"
    by (auto simp: findIndex_None)
  then show ?thesis
    by (simp add: updateIOU_def settleIOU_def)
qed

theorem updateIOU_missing_id_noop_witness:
  "''2'' \<notin> iou_id ` set (loadIOUs annStore)
   \<and> updateIOU ''2'' (noUpdates\<lparr>p_amount := Some (Num 75)\<rparr>) 1700000000000 annStore = Inr annStore
   \<and> settleIOU ''2'' 1700000000000 1700000000001 annStore = Inr annStore"
proof -
  have h: "''2'' \<notin> iou_id ` set (loadIOUs annStore)"
    by (simp add: loadIOUs_def annStore_def annLoan_def)
  from h updateIOU_missing_id_noop [OF h] show ?thesis by simp
qed

section \<open>Settling and the notification registry\<close>

lemma scheduleIOUReminder_adds:
  assumes "n \<in> set (scheduled (snd (scheduleIOUReminder setHours iou settings rt d)))"
  shows "n \<in> set (scheduled d) \<or> data_iouId n = iou_id iou"
  using assms
  by (auto simp: scheduleIOUReminder_def cancelIOUReminder_def Let_def
      cancelScheduledNotificationAsync_def scheduleNotificationAsync_def split: if_splits)

lemma scheduleEach_adds:
  assumes "n \<in> set (scheduled (scheduleEach setHours settings rts k ious d))"
  shows "n \<in> set (scheduled d) \<or> data_iouId n \<in> iou_id ` set ious"
  using assms
proof (induction ious arbitrary: k d)
  case Nil
  then show ?case by simp
next
  case (Cons iou rest)
  from Cons.IH [OF Cons.prems [simplified]]
  show ?case using scheduleIOUReminder_adds by fastforce
qed

lemma scheduleAllReminders_adds:
  assumes "n \<in> set (scheduled (scheduleAllReminders setHours cur rts d))"
  shows "n \<in> set (scheduled d)
       \<or> (\<exists>iou \<in> set (loadIOUs (storage d)). \<not> isSettled iou \<and> data_iouId n = iou_id iou)"
proof (cases "enabled (reminders (loadSettings cur (storage d)))")
  case False
  with assms show ?thesis by (simp add: scheduleAllReminders_def)
next
  case True
  with assms have "n \<in> set (scheduled (scheduleEach setHours (loadSettings cur (storage d)) rts 0
      (filter (\<lambda>iou. \<not> isSettled iou) (loadIOUs (storage d))) d))"
    by (simp add: scheduleAllReminders_def Let_def)
  from scheduleEach_adds [OF this] show ?thesis by auto
qed

text \<open>
  C1, as the code has it. The claim that settling cancels the record's pending
  notification fails: neither \<open>settleIOU\<close> nor the Settle button's handler touches the
  notification registry. After adding a loan, scheduling all reminders and settling the
  loan, the record is settled and its reminder is still pending.
\<close>

theorem settle_leaves_reminder_pending:
  "addIOU (transaction Lent (Num 50) ''Ann'' None 1699000000000 (Some 1700500000000))
     ''1'' 1699000000000 (storage freshDevice) = Inr (annLoan, annStore)
   \<and> (let d2 = scheduleAllReminders (setHoursAt 0) ''USD''
                   (\<lambda>k. atInstant ''uuid-1'' 1700000000000) (freshDevice\<lparr>storage := annStore\<rparr>);
            d3 = handleSettleIOU annLoan 1700000100000 1700000100000 d2
        in map data_iouId (scheduled d2) = [''1'']
           \<and> map iou_id (loadIOUs (storage d3)) = [''1'']
           \<and> map isSettled (loadIOUs (storage d3)) = [True]
           \<and> map data_iouId (scheduled d3) = [''1'']
           \<and> map trigger_seconds (scheduled d3) = [211600])"
  by code_simp

text \<open>
  C1, amended. For every record list and every id present in it, \<open>settleIOU\<close> (when
  the store can be written) marks the first record with that id settled and sets its
  settled date; settling leaves the registry of scheduled notifications as it was; and
  \<open>scheduleAllReminders\<close> only ever adds notifications for unsettled records.
\<close>

theorem settleIOU_marks_settled:
  assumes "findIndex (\<lambda>iou. iou_id iou = i) (loadIOUs st) = Some k"
      and "\<not> setItemFails st"
  shows "(\<exists>st'. settleIOU i tSettled tUpdated st = Inr st'
            \<and> loadIOUs st' =
                (loadIOUs st)[k := (loadIOUs st ! k)
                   \<lparr>isSettled := True, settledDate := Some tSettled, updatedAt := tUpdated\<rparr>])
       \<and> scheduled (handleSettleIOU iou tSettled tUpdated d) = scheduled d
       \<and> (\<forall>n \<in> set (scheduled (scheduleAllReminders setHours cur rts d)).
             n \<in> set (scheduled d)
             \<or> (\<exists>r \<in> set (loadIOUs (storage d)). \<not> isSettled r \<and> data_iouId n = iou_id r))"
proof -
  have g: "\<not> getItemFails st"
    using assms(1) by (auto simp: loadIOUs_def split: if_splits)
  have "(spread x (noUpdates\<lparr>p_isSettled := Some True, p_settledDate := Some (Some tSettled)\<rparr>))
          \<lparr>updatedAt := tUpdated\<rparr>
        = x\<lparr>isSettled := True, settledDate := Some tSettled, updatedAt := tUpdated\<rparr>" for x
    by (simp add: spread_def noUpdates_def orKeep_def)
  then have e: "settleIOU i tSettled tUpdated st =
      Inr (st\<lparr>iousItem := Some ((loadIOUs st)[k := (loadIOUs st ! k)
             \<lparr>isSettled := True, settledDate := Some tSettled, updatedAt := tUpdated\<rparr>])\<rparr>)"
    using assms by (simp add: settleIOU_def updateIOU_def saveIOUs_def Let_def)
  have l: "loadIOUs (st\<lparr>iousItem := Some xs\<rparr>) = xs" for xs
    using g by (simp add: loadIOUs_def)
  have 1: "\<exists>st'. settleIOU i tSettled tUpdated st = Inr st'
            \<and> loadIOUs st' =
                (loadIOUs st)[k := (loadIOUs st ! k)
                   \<lparr>isSettled := True, settledDate := Some tSettled, updatedAt := tUpdated\<rparr>]"
    unfolding e using l by blast
  have 2: "scheduled (handleSettleIOU iou tSettled tUpdated d) = scheduled d"
    by (simp add: handleSettleIOU_def split: sum.splits)
  from 1 2 scheduleAllReminders_adds show ?thesis by blast
qed

theorem settleIOU_marks_settled_witness:
  "findIndex (\<lambda>iou. iou_id iou = ''1'') (loadIOUs annStore) = Some 0
   \<and> \<not> setItemFails annStore
   \<and> (\<exists>st'. settleIOU ''1'' 1700000100000 1700000100001 annStore = Inr st'
          \<and> loadIOUs st' =
              (loadIOUs annStore)[0 := (loadIOUs annStore ! 0)
                 \<lparr>isSettled := True, settledDate := Some 1700000100000,
                  updatedAt := 1700000100001\<rparr>])
   \<and> scheduled (handleSettleIOU annLoan 1700000100000 1700000100001 freshDevice)
       = scheduled freshDevice"
proof -
  have h1: "findIndex (\<lambda>iou. iou_id iou = ''1'') (loadIOUs annStore) = Some 0"
    by (simp add: loadIOUs_def annStore_def annLoan_def)
  have h2: "\<not> setItemFails annStore"
    by (simp add: annStore_def)
  from settleIOU_marks_settled [OF h1 h2, of 1700000100000 1700000100001 annLoan freshDevice]
    h1 h2 show ?thesis by blast
qed

section \<open>Properties of the reminder scheduler\<close>

text \<open>
  C3, as the code has it. The claim that an overdue candidate is \<open>now + 5 minutes\<close>
  fails: the time of day is overwritten after the clamp as well. A loan that was due
  yesterday (2023-11-13T12:00:00Z) with three days of lead time, scheduled at
  2023-11-14T22:13:20Z with a notification time of 09:00 (UTC), gets the reminder date
  2023-11-14T09:00:00Z, which is neither \<open>now + 5 minutes\<close> nor in the future.
\<close>

theorem clamped_candidate_not_five_minutes:
  "(let iou = transaction Lent (Num 50) ''Ann'' None 1699000000000 (Some 1699876800000);
        rs = reminders (defaultSettings ''USD'');
        now = 1700000000000
    in reminderDate (setHoursAt 0) iou rs now now = 1699952400000
       \<and> reminderDate (setHoursAt 0) iou rs now now \<noteq> now + 5 * 60 * 1000
       \<and> reminderDate (setHoursAt 0) iou rs now now < now)"
  by code_simp

text \<open>
  C3, amended. For every record with due date \<open>D\<close> and lead time \<open>k\<close> days, the
  reminder date computed by \<open>scheduleIOUReminder\<close> is \<open>D - k\<close> days with its time of
  day overwritten to the notification time when \<open>D - k\<close> days is strictly in the
  future; otherwise it is \<open>now + 5 minutes\<close> with its time of day overwritten in the
  same way. When a notification is scheduled, its delay is the distance to that date in
  whole seconds, but at least one second, so it never fires in the past.
\<close>

theorem dueDate_candidate:
  assumes "dueDate iou = Some D"
  shows "reminderDate setHours iou (reminders settings) (tCompare rt) (tClamp rt) =
           (if tCompare rt < D - dueDateDaysBefore (reminders settings) * (24 * 60 * 60 * 1000)
            then setHours (D - dueDateDaysBefore (reminders settings) * (24 * 60 * 60 * 1000))
                   (fst (notificationTime (reminders settings)))
                   (snd (notificationTime (reminders settings)))
            else setHours (tClamp rt + 5 * 60 * 1000)
                   (fst (notificationTime (reminders settings)))
                   (snd (notificationTime (reminders settings))))
       \<and> (enabled (reminders settings) \<and> notificationsAvailable d \<longrightarrow>
            (\<exists>n. scheduled (snd (scheduleIOUReminder setHours iou settings rt d)) =
                    cancelScheduledNotificationAsync (''iou-reminder-'' @ iou_id iou) (scheduled d) @ [n]
                 \<and> trigger_seconds n =
                     max 1 ((reminderDate setHours iou (reminders settings) (tCompare rt) (tClamp rt)
                             - tTrigger rt) div 1000)
                 \<and> tTrigger rt < fireTime rt n))"
proof -
  have a: "reminderDate setHours iou (reminders settings) (tCompare rt) (tClamp rt) =
           (if tCompare rt < D - dueDateDaysBefore (reminders settings) * (24 * 60 * 60 * 1000)
            then setHours (D - dueDateDaysBefore (reminders settings) * (24 * 60 * 60 * 1000))
                   (fst (notificationTime (reminders settings)))
                   (snd (notificationTime (reminders settings)))
            else setHours (tClamp rt + 5 * 60 * 1000)
                   (fst (notificationTime (reminders settings)))
                   (snd (notificationTime (reminders settings))))"
    using assms
    by (simp add: reminderDate_def dateBeforeSetHours_def mult.commute Let_def split: prod.splits)
  have b: "enabled (reminders settings) \<and> notificationsAvailable d \<longrightarrow>
            (\<exists>n. scheduled (snd (scheduleIOUReminder setHours iou settings rt d)) =
                    cancelScheduledNotificationAsync (''iou-reminder-'' @ iou_id iou) (scheduled d) @ [n]
                 \<and> trigger_seconds n =
                     max 1 ((reminderDate setHours iou (reminders settings) (tCompare rt) (tClamp rt)
                             - tTrigger rt) div 1000)
                 \<and> tTrigger rt < fireTime rt n)"
    by (simp add: scheduleIOUReminder_def cancelIOUReminder_def scheduleNotificationAsync_def
        fireTime_def Let_def less_max_iff_disj)
  from a b show ?thesis by blast
qed

theorem dueDate_candidate_witness:
  "dueDate annLoan = Some 1700500000000
   \<and> reminderDate (setHoursAt 0) annLoan (reminders (defaultSettings ''USD''))
       1700000000000 1700000000000 = setHoursAt 0 (1700500000000 - 3 * (24 * 60 * 60 * 1000)) 9 0
   \<and> setHoursAt 0 (1700500000000 - 3 * (24 * 60 * 60 * 1000)) 9 0 = 1700211600000
   \<and> map trigger_seconds
       (scheduled (snd (scheduleIOUReminder (setHoursAt 0) annLoan (defaultSettings ''USD'')
          (atInstant ''uuid-1'' 1700000000000) freshDevice))) = [211600]"
proof -
  have h: "dueDate annLoan = Some 1700500000000"
    by (simp add: annLoan_def transaction_def)
  have s: "defaultSettings ''USD'' = defaultSettings ''USD''" ..
  have e: "enabled (reminders (defaultSettings ''USD'')) \<and> notificationsAvailable freshDevice"
    by (simp add: defaultSettings_def freshDevice_def)
  have k: "dueDateDaysBefore (reminders (defaultSettings ''USD'')) = 3"
       "notificationTime (reminders (defaultSettings ''USD'')) = (9, 0)"
    by (simp_all add: defaultSettings_def)
  have t: "tCompare (atInstant ''uuid-1'' 1700000000000) = 1700000000000"
       "tClamp (atInstant ''uuid-1'' 1700000000000) = 1700000000000"
       "tTrigger (atInstant ''uuid-1'' 1700000000000) = 1700000000000"
    by (simp_all add: atInstant_def)
  have v: "setHoursAt 0 (1700500000000 - 3 * (24 * 60 * 60 * 1000)) 9 0 = 1700211600000"
    by (simp add: setHoursAt_def)
  note w = dueDate_candidate [OF h, of "setHoursAt 0" "defaultSettings ''USD''"
      "atInstant ''uuid-1'' 1700000000000" freshDevice]
  from w have r: "reminderDate (setHoursAt 0) annLoan (reminders (defaultSettings ''USD''))
       1700000000000 1700000000000 = setHoursAt 0 (1700500000000 - 3 * (24 * 60 * 60 * 1000)) 9 0"
    by (simp add: k t)
  from w e obtain n where
    n: "scheduled (snd (scheduleIOUReminder (setHoursAt 0) annLoan (defaultSettings ''USD'')
          (atInstant ''uuid-1'' 1700000000000) freshDevice)) =
        cancelScheduledNotificationAsync (''iou-reminder-'' @ iou_id annLoan) (scheduled freshDevice) @ [n]"
    and "trigger_seconds n =
          max 1 ((reminderDate (setHoursAt 0) annLoan (reminders (defaultSettings ''USD''))
                   (tCompare (atInstant ''uuid-1'' 1700000000000))
                   (tClamp (atInstant ''uuid-1'' 1700000000000))
                  - tTrigger (atInstant ''uuid-1'' 1700000000000)) div 1000)"
    by blast
  moreover have "max 1 ((setHoursAt 0 1700240800000 9 0 - 1700000000000) div 1000) = (211600::int)"
    by (simp add: setHoursAt_def)
  ultimately have "trigger_seconds n = 211600"
    by (simp add: t r)
  with n have "map trigger_seconds
       (scheduled (snd (scheduleIOUReminder (setHoursAt 0) annLoan (defaultSettings ''USD'')
          (atInstant ''uuid-1'' 1700000000000) freshDevice))) = [211600]"
    by (simp add: cancelScheduledNotificationAsync_def freshDevice_def)
  with h r v show ?thesis by simp
qed

text \<open>
  C4. Scheduling a reminder for the same record twice in succession should leave one
  pending notification for it. The code files each notification under an identifier
  that the platform chooses, and cancels under the key \<open>iou-reminder-<id>\<close>, which no
  pending notification carries: after two calls two notifications for the record are
  pending.
\<close>

theorem reschedule_leaves_two_pending:
  "(let first = scheduleIOUReminder (setHoursAt 0) annLoan (defaultSettings ''USD'')
                  (atInstant ''uuid-1'' 1700000000000) freshDevice;
        second = scheduleIOUReminder (setHoursAt 0) annLoan (defaultSettings ''USD'')
                  (atInstant ''uuid-2'' 1700000001000) (snd first)
    in fst first = Some ''uuid-1'' \<and> fst second = Some ''uuid-2''
       \<and> map n_identifier (scheduled (snd second)) = [''uuid-1'', ''uuid-2'']
       \<and> map data_iouId (scheduled (snd second)) = [''1'', ''1''])"
  by code_simp

text \<open>
  C5. For every record with no due date, the reminder date is the record's date plus
  the periodic interval in days when no reminder has been sent, and the date of the last
  reminder plus that interval otherwise, in both cases with its time of day overwritten
  to the notification time. (The record's date is its field \<open>date\<close>, the spec's
  \<open>createdDate\<close>.) This is the date \<open>scheduleIOUReminder\<close> schedules for: when
  reminders are enabled and notifications available, it returns the platform's
  identifier and adds one notification for the record, whose delay is the distance to
  that date in whole seconds, but at least one second.
\<close>

theorem periodic_candidate:
  assumes "dueDate iou = None"
  shows "(lastReminder iou = None \<longrightarrow>
           reminderDate setHours iou (reminders settings) (tCompare rt) (tClamp rt) =
             setHours (date iou + periodicReminderDays (reminders settings) * (24 * 60 * 60 * 1000))
               (fst (notificationTime (reminders settings)))
               (snd (notificationTime (reminders settings))))
       \<and> (\<forall>L. lastReminder iou = Some L \<longrightarrow>
           reminderDate setHours iou (reminders settings) (tCompare rt) (tClamp rt) =
             setHours (L + periodicReminderDays (reminders settings) * (24 * 60 * 60 * 1000))
               (fst (notificationTime (reminders settings)))
               (snd (notificationTime (reminders settings))))
       \<and> (enabled (reminders settings) \<and> notificationsAvailable d \<longrightarrow>
            (\<exists>n. scheduleIOUReminder setHours iou settings rt d =
                   (Some (uid rt),
                    d\<lparr>scheduled :=
                        cancelScheduledNotificationAsync (''iou-reminder-'' @ iou_id iou)
                          (scheduled d) @ [n]\<rparr>)
                 \<and> data_iouId n = iou_id iou
                 \<and> trigger_seconds n =
                     max 1 ((setHours
                               ((case lastReminder iou of None \<Rightarrow> date iou | Some L \<Rightarrow> L)
                                + periodicReminderDays (reminders settings) * (24 * 60 * 60 * 1000))
                               (fst (notificationTime (reminders settings)))
                               (snd (notificationTime (reminders settings)))
                             - tTrigger rt) div 1000)))"
proof -
  have r: "reminderDate setHours iou (reminders settings) (tCompare rt) (tClamp rt) =
      setHours ((case lastReminder iou of None \<Rightarrow> date iou | Some L \<Rightarrow> L)
                + periodicReminderDays (reminders settings) * (24 * 60 * 60 * 1000))
        (fst (notificationTime (reminders settings)))
        (snd (notificationTime (reminders settings)))"
    using assms
    by (simp add: reminderDate_def dateBeforeSetHours_def mult.commute split: prod.splits)
  have a: "lastReminder iou = None \<longrightarrow>
           reminderDate setHours iou (reminders settings) (tCompare rt) (tClamp rt) =
             setHours (date iou + periodicReminderDays (reminders settings) * (24 * 60 * 60 * 1000))
               (fst (notificationTime (reminders settings)))
               (snd (notificationTime (reminders settings)))"
    using r by simp
  have b: "\<forall>L. lastReminder iou = Some L \<longrightarrow>
           reminderDate setHours iou (reminders settings) (tCompare rt) (tClamp rt) =
             setHours (L + periodicReminderDays (reminders settings) * (24 * 60 * 60 * 1000))
               (fst (notificationTime (reminders settings)))
               (snd (notificationTime (reminders settings)))"
    using r by simp
  have c: "enabled (reminders settings) \<and> notificationsAvailable d \<longrightarrow>
            (\<exists>n. scheduleIOUReminder setHours iou settings rt d =
                   (Some (uid rt),
                    d\<lparr>scheduled :=
                        cancelScheduledNotificationAsync (''iou-reminder-'' @ iou_id iou)
                          (scheduled d) @ [n]\<rparr>)
                 \<and> data_iouId n = iou_id iou
                 \<and> trigger_seconds n =
                     max 1 ((reminderDate setHours iou (reminders settings) (tCompare rt) (tClamp rt)
                             - tTrigger rt) div 1000))"
  proof
    assume ea: "enabled (reminders settings) \<and> notificationsAvailable d"
    let ?n = "\<lparr>n_identifier = uid rt, data_iouId = iou_id iou, title = reminderTitle iou,
               trigger_seconds =
                 max 1 ((reminderDate setHours iou (reminders settings) (tCompare rt) (tClamp rt)
                         - tTrigger rt) div 1000)\<rparr>"
    have "scheduleIOUReminder setHours iou settings rt d =
            (Some (uid rt),
             d\<lparr>scheduled :=
                 cancelScheduledNotificationAsync (''iou-reminder-'' @ iou_id iou)
                   (scheduled d) @ [?n]\<rparr>)"
      using ea
      by (simp add: scheduleIOUReminder_def cancelIOUReminder_def scheduleNotificationAsync_def
          Let_def)
    then show "\<exists>n. scheduleIOUReminder setHours iou settings rt d =
                   (Some (uid rt),
                    d\<lparr>scheduled :=
                        cancelScheduledNotificationAsync (''iou-reminder-'' @ iou_id iou)
                          (scheduled d) @ [n]\<rparr>)
                 \<and> data_iouId n = iou_id iou
                 \<and> trigger_seconds n =
                     max 1 ((reminderDate setHours iou (reminders settings) (tCompare rt) (tClamp rt)
                             - tTrigger rt) div 1000)"
      by (intro exI [of _ ?n]) simp
  qed
  from a b c [unfolded r] show ?thesis by blast
qed

theorem periodic_candidate_witness:
  "dueDate (annLoan\<lparr>dueDate := None\<rparr>) = None
   \<and> lastReminder (annLoan\<lparr>dueDate := None\<rparr>) = None
   \<and> reminderDate (setHoursAt 0) (annLoan\<lparr>dueDate := None\<rparr>)
       (reminders (defaultSettings ''USD'')) 1699100000000 1699100000000
     = setHoursAt 0 (1699000000000 + 7 * (24 * 60 * 60 * 1000)) 9 0
   \<and> setHoursAt 0 (1699000000000 + 7 * (24 * 60 * 60 * 1000)) 9 0 = 1699606800000
   \<and> fst (scheduleIOUReminder (setHoursAt 0) (annLoan\<lparr>dueDate := None\<rparr>)
          (defaultSettings ''USD'') (atInstant ''uuid-1'' 1699100000000) freshDevice)
     = Some ''uuid-1''
   \<and> map trigger_seconds
       (scheduled (snd (scheduleIOUReminder (setHoursAt 0) (annLoan\<lparr>dueDate := None\<rparr>)
          (defaultSettings ''USD'') (atInstant ''uuid-1'' 1699100000000) freshDevice)))
     = [506800]
   \<and> dueDate (annLoan\<lparr>dueDate := None, lastReminder := Some 1699600000000\<rparr>) = None
   \<and> reminderDate (setHoursAt 0) (annLoan\<lparr>dueDate := None, lastReminder := Some 1699600000000\<rparr>)
       (reminders (defaultSettings ''USD'')) 1699100000000 1699100000000
     = setHoursAt 0 (1699600000000 + 7 * (24 * 60 * 60 * 1000)) 9 0"
proof -
  let ?iou = "annLoan\<lparr>dueDate := None\<rparr>"
  let ?rt = "atInstant ''uuid-1'' 1699100000000"
  have h1: "dueDate ?iou = None" by simp
  have h2: "dueDate (annLoan\<lparr>dueDate := None, lastReminder := Some 1699600000000\<rparr>) = None"
    by simp
  have l1: "lastReminder ?iou = None"
    by (simp add: annLoan_def transaction_def)
  have k: "periodicReminderDays (reminders (defaultSettings ''USD'')) = 7"
       "notificationTime (reminders (defaultSettings ''USD'')) = (9, 0)"
    by (simp_all add: defaultSettings_def)
  have e: "enabled (reminders (defaultSettings ''USD'')) \<and> notificationsAvailable freshDevice"
    by (simp add: defaultSettings_def freshDevice_def)
  have dt: "date ?iou = 1699000000000"
    by (simp add: annLoan_def transaction_def)
  have t: "tCompare ?rt = 1699100000000" "tClamp ?rt = 1699100000000"
       "tTrigger ?rt = 1699100000000" "uid ?rt = ''uuid-1''"
    by (simp_all add: atInstant_def)
  have v: "setHoursAt 0 (1699000000000 + 7 * (24 * 60 * 60 * 1000)) 9 0 = 1699606800000"
    by (simp add: setHoursAt_def)
  have v': "max 1 ((setHoursAt 0 1699604800000 9 0 - 1699100000000) div 1000) = (506800::int)"
    by (simp add: setHoursAt_def)
  note w1 = periodic_candidate [OF h1, of "setHoursAt 0" "defaultSettings ''USD''" ?rt freshDevice]
  note w2 = periodic_candidate [OF h2, of "setHoursAt 0" "defaultSettings ''USD''" ?rt freshDevice]
  from w1 l1 have r1: "reminderDate (setHoursAt 0) ?iou
       (reminders (defaultSettings ''USD'')) 1699100000000 1699100000000
     = setHoursAt 0 (1699000000000 + 7 * (24 * 60 * 60 * 1000)) 9 0"
    by (simp add: k dt t)
  from w2 have r2: "reminderDate (setHoursAt 0)
       (annLoan\<lparr>dueDate := None, lastReminder := Some 1699600000000\<rparr>)
       (reminders (defaultSettings ''USD'')) 1699100000000 1699100000000
     = setHoursAt 0 (1699600000000 + 7 * (24 * 60 * 60 * 1000)) 9 0"
    by (simp add: k t)
  from w1 e obtain n where
    n: "scheduleIOUReminder (setHoursAt 0) ?iou (defaultSettings ''USD'') ?rt freshDevice =
          (Some (uid ?rt),
           freshDevice\<lparr>scheduled :=
             cancelScheduledNotificationAsync (''iou-reminder-'' @ iou_id ?iou)
               (scheduled freshDevice) @ [n]\<rparr>)"
    and s: "trigger_seconds n =
          max 1 ((setHoursAt 0
                    ((case lastReminder ?iou of None \<Rightarrow> date ?iou | Some L \<Rightarrow> L)
                     + periodicReminderDays (reminders (defaultSettings ''USD''))
                       * (24 * 60 * 60 * 1000))
                    (fst (notificationTime (reminders (defaultSettings ''USD''))))
                    (snd (notificationTime (reminders (defaultSettings ''USD''))))
                  - tTrigger ?rt) div 1000)"
    by blast
  from s have s': "trigger_seconds n = 506800"
    by (simp add: l1 dt k t v')
  from n have f: "fst (scheduleIOUReminder (setHoursAt 0) ?iou (defaultSettings ''USD'') ?rt
      freshDevice) = Some ''uuid-1''"
    by (simp add: t)
  from n s' have m: "map trigger_seconds
       (scheduled (snd (scheduleIOUReminder (setHoursAt 0) ?iou (defaultSettings ''USD'') ?rt
          freshDevice))) = [506800]"
    by (simp add: cancelScheduledNotificationAsync_def freshDevice_def)
  from h1 l1 r1 v f m h2 r2 show ?thesis by simp
qed

section \<open>Properties of the upcoming-reminders query\<close>

lemma upcomingLoop_filter:
  "upcomingLoop rs now next7Days xs =
     filter (\<lambda>p. now \<le> snd p \<and> snd p \<le> next7Days) (map (\<lambda>i. (i, upcomingDate i rs)) xs)"
  by (induction xs) (simp_all add: Let_def)

text \<open>
  C6, as the code has it. The claim that \<open>getUpcomingReminders\<close> computes the date
  the scheduler computes fails: it applies neither the clamp nor the notification time.
  For the loan due on 2023-11-20T17:06:40Z with three days of lead time and a
  notification time of 09:00 (UTC), the dashboard date is 2023-11-17T17:06:40Z and the
  scheduled date is 2023-11-17T09:00:00Z.
\<close>

theorem upcoming_differs_from_scheduled:
  "upcomingDate annLoan (reminders (defaultSettings ''USD'')) = 1700240800000
   \<and> reminderDate (setHoursAt 0) annLoan (reminders (defaultSettings ''USD''))
        1700000000000 1700000000000 = 1700211600000
   \<and> upcomingDate annLoan (reminders (defaultSettings ''USD''))
       \<noteq> reminderDate (setHoursAt 0) annLoan (reminders (defaultSettings ''USD''))
           1700000000000 1700000000000"
  by code_simp

text \<open>
  C6, amended. When reminders are enabled, \<open>getUpcomingReminders\<close> computes for every
  unsettled record the date \<open>upcomingDate\<close> (the due date minus the lead time, or the
  last reminder or else the record's date plus the periodic interval), keeps exactly
  those in the window from \<open>now\<close> to \<open>now + 7 days\<close>, and returns them sorted
  ascending by that date; when reminders are disabled it returns nothing. It leaves the
  device unchanged. \<open>upcomingDate\<close> is the scheduler's date before the time of day is
  set, whenever the scheduler does not clamp.
\<close>

theorem getUpcomingReminders_projection:
  "(let rs = reminders (loadSettings cur (storage d));
        res = fst (getUpcomingReminders cur now d)
    in (if enabled rs
        then mset res =
               filter_mset (\<lambda>p. now \<le> snd p \<and> snd p \<le> now + 7 * 24 * 60 * 60 * 1000)
                 (image_mset (\<lambda>i. (i, upcomingDate i rs))
                    (filter_mset (\<lambda>i. \<not> isSettled i) (mset (loadIOUs (storage d)))))
             \<and> sorted (map snd res)
        else res = [])
       \<and> snd (getUpcomingReminders cur now d) = d
       \<and> (\<forall>i t t'. (case dueDate i of None \<Rightarrow> True
                      | Some D \<Rightarrow> t < D - dueDateDaysBefore rs * (24 * 60 * 60 * 1000))
             \<longrightarrow> upcomingDate i rs = dateBeforeSetHours i rs t t'))"
  by (auto simp: getUpcomingReminders_def Let_def upcomingLoop_filter upcomingDate_def
      dateBeforeSetHours_def mult.commute split: option.splits)

theorem getUpcomingReminders_projection_witness:
  "enabled (reminders (loadSettings ''USD'' (storage (freshDevice\<lparr>storage := annStore\<rparr>))))
   \<and> fst (getUpcomingReminders ''USD'' 1700000000000 (freshDevice\<lparr>storage := annStore\<rparr>))
       = [(annLoan, 1700240800000)]
   \<and> snd (getUpcomingReminders ''USD'' 1700000000000 (freshDevice\<lparr>storage := annStore\<rparr>))
       = freshDevice\<lparr>storage := annStore\<rparr>
   \<and> upcomingDate annLoan (reminders (loadSettings ''USD'' annStore))
       = dateBeforeSetHours annLoan (reminders (loadSettings ''USD'' annStore))
           1700000000000 1700000000000"
proof -
  let ?d = "freshDevice\<lparr>storage := annStore\<rparr>"
  let ?rs = "reminders (loadSettings ''USD'' (storage ?d))"
  have st: "storage ?d = annStore" by simp
  have rs: "reminders (loadSettings ''USD'' annStore) = reminders (defaultSettings ''USD'')"
    by (simp add: loadSettings_def annStore_def)
  have en: "enabled ?rs"
    by (simp add: rs defaultSettings_def)
  have io: "loadIOUs annStore = [annLoan]"
    by (simp add: loadIOUs_def annStore_def)
  have ns: "\<not> isSettled annLoan" and du: "dueDate annLoan = Some 1700500000000"
    by (simp_all add: annLoan_def transaction_def)
  have up: "upcomingDate annLoan (reminders (defaultSettings ''USD'')) = 1700240800000"
    by (simp add: upcomingDate_def du defaultSettings_def)
  note w = getUpcomingReminders_projection [of "''USD''" ?d 1700000000000]
  from w en have "mset (fst (getUpcomingReminders ''USD'' 1700000000000 ?d))
      = {#(annLoan, 1700240800000)#}"
    by (simp add: Let_def rs io ns up)
  then have 1: "fst (getUpcomingReminders ''USD'' 1700000000000 ?d) = [(annLoan, 1700240800000)]"
    by simp
  from w have 2: "snd (getUpcomingReminders ''USD'' 1700000000000 ?d) = ?d"
    by (simp add: Let_def)
  from w have "(case dueDate annLoan of None \<Rightarrow> True
                | Some D \<Rightarrow> 1700000000000 < D - dueDateDaysBefore ?rs * (24 * 60 * 60 * 1000))
       \<longrightarrow> upcomingDate annLoan ?rs = dateBeforeSetHours annLoan ?rs 1700000000000 1700000000000"
    unfolding Let_def by blast
  then have 3: "upcomingDate annLoan (reminders (loadSettings ''USD'' annStore))
       = dateBeforeSetHours annLoan (reminders (loadSettings ''USD'' annStore))
           1700000000000 1700000000000"
    by (simp add: du rs defaultSettings_def)
  from en 1 2 3 show ?thesis by simp
qed

section \<open>Properties of the category manager\<close>

lemma createCategory_rejects_case_variant:
  assumes "c \<in> set (categories (initializeCategories t0 m))"
      and "toLowerCase name = toLowerCase (cat_name c)"
  shows "snd (createCategory t0 name col icn newId now m) = Inl DuplicateName"
  using assms
  by (auto simp: createCategory_def hasProFeature_def Let_def list_ex_iff)

text \<open>
  C7. Category names should stay unique case-insensitively, and \<open>createCategory\<close>
  does reject a name that differs only in case from an existing one (lemma
  \<open>createCategory_rejects_case_variant\<close>). But it compares the name as typed and stores
  the trimmed name: on a fresh installation, creating a category named " General"
  (with a leading space) succeeds and stores a second category named "General".
\<close>

theorem createCategory_untrimmed_duplicate:
  "(case createCategory t0 '' General'' ''#007AFF'' ''banknote'' ''category_1'' now freshManager of
      (m, r) \<Rightarrow>
        r = Inr (Some \<lparr>cat_id = ''category_1'', cat_name = ''General'', color = ''#007AFF'',
                       icon = ''banknote'', cat_createdAt = now, isDefault = False\<rparr>)
        \<and> map cat_name (categories m) =
            [''General'', ''Personal'', ''Business'', ''Family'', ''General'']
        \<and> \<not> namesUnique (categories m))"
  by (simp add: createCategory_def hasProFeature_def initializeCategories_def
      freshManager_def saveCategories_def DEFAULT_CATEGORIES_def toLowerCase_def toLowerChar_def
      trim_def isWhiteSpace_def namesUnique_def Let_def)

section \<open>Properties of the export renderer\<close>

lemma length_splitOn: "length (splitOn c s) = Suc (length (filter (\<lambda>x. x = c) s))"
  by (induction s) (auto split: list.splits)

lemma splitOn_no_sep: "c \<notin> set s \<Longrightarrow> splitOn c s = [s]"
  by (induction s) auto

lemma splitOn_append: "c \<notin> set a \<Longrightarrow> splitOn c (a @ c # b) = a # splitOn c b"
  by (induction a) auto

lemma splitOn_joinArray:
  "\<forall>r \<in> set (x # rows). c \<notin> set r \<Longrightarrow> splitOn c (joinArray [c] (x # rows)) = x # rows"
proof (induction rows arbitrary: x)
  case Nil
  then show ?case by (simp add: splitOn_no_sep)
next
  case (Cons y ys)
  then show ?case by (simp add: splitOn_append)
qed

lemma newline_notin_header: "newline \<notin> set headerRow"
  by (simp add: headerRow_def newline_def)

lemma generateCSVContent_rows:
  assumes "\<forall>iou \<in> set ious. newline \<notin> set (csvRow toFixed format iou)"
  shows "csvRows (generateCSVContent toFixed format ious) =
           headerRow # map (csvRow toFixed format) ious"
  unfolding csvRows_def generateCSVContent_def Let_def
  by (rule splitOn_joinArray) (use assms newline_notin_header in auto)

text \<open>
  C8. The output should have the header row and then one row per record. The code
  writes the note between double quotes without escaping it, so a record whose note
  contains a double quote followed by a line break (the note field of the form is
  multi-line) ends its row early: for one such record, whatever the number and date
  formatters return, the output has more than two rows. (Lemma
  \<open>generateCSVContent_rows\<close>: when no row contains a line break, the rows are the
  header and one row per record.)
\<close>

theorem generateCSVContent_note_breaks_rows:
  "length (csvRows (generateCSVContent toFixed format
      [iou\<lparr>iou_note := Some (''x'' @ [dquote, newline] @ ''y'')\<rparr>])) > 1 + length [iou]"
  by (simp add: csvRows_def length_splitOn generateCSVContent_def csvRow_def Let_def)

section \<open>Properties of the ad frequency limits\<close>

lemma canShowInterstitialAd_True:
  assumes "canShowInterstitialAd now today s = (True, s')"
  shows "INTERSTITIAL_MIN_INTERVAL \<le> now - lastInterstitial (adFrequencyData s)
       \<and> interstitialsSession (adFrequencyData s) < MAX_INTERSTITIALS_PER_SESSION
       \<and> (lastDate (adFrequencyData s) = today \<longrightarrow>
            interstitialsToday (adFrequencyData s) < MAX_INTERSTITIALS_PER_DAY)"
  using assms
  by (auto simp: canShowInterstitialAd_def Let_def saveAdFrequencyData_def split: if_splits)

text \<open>
  What the check does enforce: an ad is shown only if five minutes have passed since
  the last \<^verbatim>\<open>CLOSED\<close> event that was recorded, and the recorded counts are below
  their limits.
\<close>

lemma showInterstitialAd_True:
  assumes "showInterstitialAd isAdFree ok now today s = (True, s')"
  shows "INTERSTITIAL_MIN_INTERVAL \<le> now - lastInterstitial (adFrequencyData s)
       \<and> interstitialsSession (adFrequencyData s) < MAX_INTERSTITIALS_PER_SESSION
       \<and> (lastDate (adFrequencyData s) = today \<longrightarrow>
            interstitialsToday (adFrequencyData s) < MAX_INTERSTITIALS_PER_DAY)"
proof -
  from assms obtain c where "canShowInterstitialAd now today s = (c, s')" and "c"
    by (auto simp: showInterstitialAd_def split: if_splits prod.splits)
  then have "canShowInterstitialAd now today s = (True, s')" by simp
  from canShowInterstitialAd_True [OF this] show ?thesis .
qed


end
